theory Spec2Isabelle
  imports Complex_Main "HOL-Library.Signed_Division"
begin

section \<open>JavaScript values and exceptions\<close>

text \<open>
  The source is TypeScript. A \<open>number\<close> is an IEEE double: a real, an infinity or
  \<open>NaN\<close>, which the code can produce (\<open>0 + undefined\<close>, \<open>Math.log(0)\<close>, a division by
  zero, \<open>Math.sqrt\<close> of a negative number). Arithmetic with \<open>NaN\<close> gives \<open>NaN\<close>. The
  operations below are the exact ones on these values. The dataset generators use them as
  they are, which idealises the finite doubles as the reals: what is proved of the
  generators (how many examples, which label, where \<open>NaN\<close> appears) does not depend on
  rounding. \<open>reduceMatrix\<close>, whose results are compared with exact values, rounds every
  operation to a double (section on rounding below).
\<close>

datatype number = Num real | PosInf | NegInf | NaN

fun plus_number :: "number \<Rightarrow> number \<Rightarrow> number" where
  "plus_number (Num a) (Num b) = Num (a + b)"
| "plus_number NaN _ = NaN"
| "plus_number _ NaN = NaN"
| "plus_number PosInf NegInf = NaN"
| "plus_number NegInf PosInf = NaN"
| "plus_number PosInf _ = PosInf"
| "plus_number NegInf _ = NegInf"
| "plus_number (Num a) b = b"

fun times_number :: "number \<Rightarrow> number \<Rightarrow> number" where
  "times_number (Num a) (Num b) = Num (a * b)"
| "times_number NaN _ = NaN"
| "times_number _ NaN = NaN"
| "times_number (Num a) PosInf = (if 0 < a then PosInf else if a < 0 then NegInf else NaN)"
| "times_number (Num a) NegInf = (if 0 < a then NegInf else if a < 0 then PosInf else NaN)"
| "times_number PosInf (Num b) = (if 0 < b then PosInf else if b < 0 then NegInf else NaN)"
| "times_number NegInf (Num b) = (if 0 < b then NegInf else if b < 0 then PosInf else NaN)"
| "times_number PosInf PosInf = PosInf"
| "times_number NegInf NegInf = PosInf"
| "times_number PosInf NegInf = NegInf"
| "times_number NegInf PosInf = NegInf"

text \<open>
  Division. The sign of a zero is not modelled: a zero divisor is taken as \<open>+0\<close>, which
  is what the divisors of the source that can be zero are (a sum of squares, a product of
  non-negative numbers).
\<close>

fun divide_number :: "number \<Rightarrow> number \<Rightarrow> number" where
  "divide_number (Num a) (Num b) =
     (if b \<noteq> 0 then Num (a / b)
      else if 0 < a then PosInf else if a < 0 then NegInf else NaN)"
| "divide_number NaN _ = NaN"
| "divide_number _ NaN = NaN"
| "divide_number (Num a) _ = Num 0"
| "divide_number PosInf (Num b) = (if 0 \<le> b then PosInf else NegInf)"
| "divide_number NegInf (Num b) = (if 0 \<le> b then NegInf else PosInf)"
| "divide_number _ _ = NaN"

text \<open>\<open>Math.sqrt\<close>, \<open>Math.log\<close>, \<open>Math.atan\<close>.\<close>

fun Math_sqrt :: "number \<Rightarrow> number" where
  "Math_sqrt (Num a) = (if a < 0 then NaN else Num (sqrt a))"
| "Math_sqrt PosInf = PosInf"
| "Math_sqrt _ = NaN"

fun Math_log :: "number \<Rightarrow> number" where
  "Math_log (Num a) = (if 0 < a then Num (ln a) else if a = 0 then NegInf else NaN)"
| "Math_log PosInf = PosInf"
| "Math_log _ = NaN"


subsection \<open>Rounding to a double\<close>

text \<open>
  IEEE 754 binary64, round to nearest, ties to even. A double other than zero is a multiple
  \<open>M * ulp\<close> of the unit in the last place of its binade, \<open>ulp = 2 powr (e - 52)\<close>, where
  \<open>e\<close> is \<open>\<lfloor>log 2 \<bar>v\<bar>\<rfloor>\<close> and at least \<open>-1022\<close> (below that binade the doubles are
  the subnormal multiples of \<open>2 powr (-1074)\<close>). A real is rounded to the nearest such
  multiple, to the even \<open>M\<close> on a tie, and to an infinity when the rounded value reaches
  \<open>2 ^ 1024\<close>. The sign of a zero is not modelled.
\<close>

definition round_half_even :: "real \<Rightarrow> int" where
  "round_half_even r =
     (let n = \<lfloor>r\<rfloor>; d = r - of_int n
      in if d < 1 / 2 then n else if d > 1 / 2 then n + 1 else if even n then n else n + 1)"

definition round_double :: "real \<Rightarrow> number" where
  "round_double v =
     (if v = 0 then Num 0
      else
        let e = max \<lfloor>log 2 \<bar>v\<bar>\<rfloor> (- 1022);
            ulp = 2 powr of_int (e - 52);
            w = of_int (round_half_even (v / ulp)) * ulp
        in if \<bar>w\<bar> \<ge> 2 ^ 1024 then (if v > 0 then PosInf else NegInf) else Num w)"

text \<open>The result of an operation, rounded: an infinity and \<open>NaN\<close> stay as they are.\<close>

definition round_number :: "number \<Rightarrow> number" where
  "round_number v = (case v of Num a \<Rightarrow> round_double a | _ \<Rightarrow> v)"

text \<open>
  The finite doubles: the reals that rounding leaves as they are. \<open>double_of v\<close> is the
  double with the value \<open>v\<close>, for a \<open>v\<close> that is one.
\<close>

typedef double = "{v :: real. round_double v = Num v}"
  by (rule exI[of _ 0]) (simp add: round_double_def)

definition number_of_double :: "double \<Rightarrow> number" where
  "number_of_double d = Num (Rep_double d)"

definition double_of :: "real \<Rightarrow> double" where
  "double_of v = Abs_double v"

text \<open>
  The source throws \<open>Error(message)\<close> explicitly; reading a property of \<open>undefined\<close>
  throws a \<open>TypeError\<close> in the JavaScript runtime.
\<close>

datatype exn = Error string | TypeError

section \<open>dataset.ts: random sampling\<close>

text \<open>
  \<open>Math.random()\<close> returns a number in \<open>[0, 1)\<close> and advances a hidden generator. The
  generator is an explicit stream here: any sequence of reals, each read through its
  fractional part, so that every stream stands for a run of the generator and every run
  is some stream. A sampler takes the stream and returns the rest of it with its value.
\<close>

type_synonym rng = "nat \<Rightarrow> real"

definition Math_random :: "rng \<Rightarrow> real \<times> rng" where
  "Math_random g = (frac (g 0), \<lambda>n. g (Suc n))"

definition randUniform :: "real \<Rightarrow> real \<Rightarrow> rng \<Rightarrow> real \<times> rng" where
  "randUniform a b g = (let (u, g') = Math_random g in (u * (b - a) + a, g'))"

text \<open>
  The rejection loop of \<open>normalRandom\<close>:
  \<open>do { v1 = ...; v2 = ...; s = v1 * v1 + v2 * v2; } while (s > 1);\<close>
  It runs for as long as the generator gives rejected pairs, so it is a partial function:
  \<open>None\<close> is the loop that never ends.
\<close>

partial_function (option) normalRandom_loop :: "rng \<Rightarrow> ((real \<times> real \<times> real) \<times> rng) option" where
  "normalRandom_loop g =
     (let (u1, g1) = Math_random g; v1 = 2 * u1 - 1;
          (u2, g2) = Math_random g1; v2 = 2 * u2 - 1;
          s = v1 * v1 + v2 * v2
      in if s > 1 then normalRandom_loop g2 else Some ((v1, v2, s), g2))"

text \<open>
  \<open>let result = Math.sqrt(-2 * Math.log(s) / s) * v1;
  return mean + Math.sqrt(variance) * result;\<close>
\<close>

definition normalRandom :: "real \<Rightarrow> number \<Rightarrow> rng \<Rightarrow> (number \<times> rng) option" where
  "normalRandom mean variance g =
     (case normalRandom_loop g of
        None \<Rightarrow> None
      | Some ((v1, v2, s), g') \<Rightarrow>
          let result =
                times_number
                  (Math_sqrt (divide_number (times_number (Num (- 2)) (Math_log (Num s))) (Num s)))
                  (Num v1)
          in Some (plus_number (Num mean) (times_number (Math_sqrt variance) result), g'))"


section \<open>d3 linear scales\<close>

text \<open>
  \<open>d3.scale.linear()\<close> belongs to the d3 library (version 3), not to this repository.
  With a domain of two numbers the scale is d3's \<open>d3_scale_bilinear\<close>: it maps \<open>x\<close> to
  \<open>r0 * (1 - t) + r1 * t\<close>, where \<open>r0\<close> and \<open>r1\<close> are the first two elements of the range
  and \<open>t = (x - d0) / (d1 - d0)\<close>, clamped to \<open>[0, 1]\<close> when \<open>clamp(true)\<close> was called
  (an empty domain interval divides by \<open>Infinity\<close>, so \<open>t = 0\<close>). Only the first
  \<open>min(N, M)\<close> elements of a domain of \<open>N\<close> and a range of \<open>M\<close> elements are observed.
\<close>

definition d3_bilinear :: "real \<times> real \<Rightarrow> real \<times> real \<Rightarrow> bool \<Rightarrow> real \<Rightarrow> real" where
  "d3_bilinear d r clamp v =
     (let a = fst d; b = snd d - a;
          t = (if b \<noteq> 0 then (v - a) / b else 0);
          t' = (if clamp then max 0 (min 1 t) else t)
      in fst r * (1 - t') + snd r * t')"

record linear_scale =
  scale_domain :: "real \<times> real"
  scale_range :: "real list"

definition scale_apply :: "linear_scale \<Rightarrow> real \<Rightarrow> number" where
  "scale_apply sc v =
     (case scale_range sc of
        r0 # r1 # _ \<Rightarrow> Num (d3_bilinear (scale_domain sc) (r0, r1) False v)
      | _ \<Rightarrow> NaN)"

section \<open>dataset.ts: the generators\<close>

text \<open>The type \<open>Example2D\<close>; its coordinates \<open>x\<close> and \<open>y\<close> are the fields \<open>px\<close> and \<open>py\<close>.\<close>

record Example2D =
  px :: number
  py :: number
  label :: number

text \<open>
  \<open>for (let i = 0; i < n; i++) body\<close>, where the bound is a number (\<open>numSamples\<close> or
  \<open>numSamples / 2\<close>, which is not an integer when \<open>numSamples\<close> is odd) and the body
  changes the array of points and the random generator.
\<close>

function for_loop :: "nat \<Rightarrow> real \<Rightarrow> (nat \<Rightarrow> 's \<Rightarrow> 's) \<Rightarrow> 's \<Rightarrow> 's" where
  "for_loop i n body st = (if real i < n then for_loop (Suc i) n body (body i st) else st)"
  by pat_completeness auto
termination
  by (relation "measure (\<lambda>(i, n, body, st). nat \<lceil>n\<rceil> - i)") (auto, linarith)

declare for_loop.simps [simp del]

text \<open>The same loop around a body that may not return.\<close>

function for_loop_opt :: "nat \<Rightarrow> real \<Rightarrow> (nat \<Rightarrow> 's \<Rightarrow> 's option) \<Rightarrow> 's \<Rightarrow> 's option" where
  "for_loop_opt i n body st =
     (if real i < n then
        (case body i st of None \<Rightarrow> None | Some st' \<Rightarrow> for_loop_opt (Suc i) n body st')
      else Some st)"
  by pat_completeness auto
termination
  by (relation "measure (\<lambda>(i, n, body, st). nat \<lceil>n\<rceil> - i)") (auto, linarith)

declare for_loop_opt.simps [simp del]

type_synonym points_state = "Example2D list \<times> rng"


text \<open>The inner function \<open>genGauss\<close> of \<open>classifyTwoGaussData\<close>.\<close>

definition genGauss :: "nat \<Rightarrow> number \<Rightarrow> real \<Rightarrow> real \<Rightarrow> real \<Rightarrow> points_state \<Rightarrow> points_state option" where
  "genGauss numSamples variance cx cy lbl st =
     for_loop_opt 0 (real numSamples / 2)
       (\<lambda>i (points, g0).
          case normalRandom cx variance g0 of
            None \<Rightarrow> None
          | Some (x, g1) \<Rightarrow>
              (case normalRandom cy variance g1 of
                 None \<Rightarrow> None
               | Some (y, g2) \<Rightarrow> Some (points @ [\<lparr>px = x, py = y, label = Num lbl\<rparr>], g2)))
       st"

definition classifyTwoGaussData :: "nat \<Rightarrow> real \<Rightarrow> rng \<Rightarrow> points_state option" where
  "classifyTwoGaussData numSamples noise g =
     (let variance = Num (d3_bilinear (0, 0.5) (0.5, 4) False noise)
      in case genGauss numSamples variance 2 2 1 ([], g) of
           None \<Rightarrow> None
         | Some st \<Rightarrow> genGauss numSamples variance (- 2) (- 2) (- 1) st)"












definition getXORLabel :: "real \<times> real \<Rightarrow> real" where
  "getXORLabel p = (if fst p * snd p \<ge> 0 then 1 else - 1)"

definition classifyXORData :: "nat \<Rightarrow> real \<Rightarrow> rng \<Rightarrow> points_state" where
  "classifyXORData numSamples noise g =
     for_loop 0 (real numSamples)
       (\<lambda>i (points, g0).
          let (x0, g1) = randUniform (- 5) 5 g0;
              padding = 0.3;
              x = x0 + (if x0 > 0 then padding else - padding);
              (y0, g2) = randUniform (- 5) 5 g1;
              y = y0 + (if y0 > 0 then padding else - padding);
              (u, g3) = randUniform (- 5) 5 g2; noiseX = u * noise;
              (v, g4) = randUniform (- 5) 5 g3; noiseY = v * noise;
              lbl = getXORLabel (x + noiseX, y + noiseY)
          in (points @ [\<lparr>px = Num x, py = Num y, label = Num lbl\<rparr>], g4))
       ([], g)"












section \<open>heatmap.ts: the HeatMap class\<close>

text \<open>
  The settings are an open bag of properties; the two that the class reads are booleans,
  and so are the values here. A key that is absent reads \<open>undefined\<close>, which is falsy.
\<close>

type_synonym HeatMapSettings = "string \<rightharpoonup> bool"

definition default_settings :: HeatMapSettings where
  "default_settings = [''showAxes'' \<mapsto> False, ''noSvg'' \<mapsto> False]"

text \<open>
  The drawing surface, as far as the class writes to it: the canvas with the pixels of the
  last \<open>putImageData\<close>, and the svg overlay with the circles of the groups \<open>g.train\<close> and
  \<open>g.test\<close> (\<open>None\<close> when the svg has no such group; d3 then selects nothing and every
  operation on the selection does nothing). A colour is its red, green and blue bytes.
\<close>

record circle =
  attr_cx :: "number option"
  attr_cy :: "number option"
  attr_r :: nat
  style_fill :: "(nat \<times> nat \<times> nat) option"

record svg_surface =
  svg_width :: real
  svg_height :: real
  g_train :: "circle list option"
  g_test :: "circle list option"

record canvas_surface =
  canvas_width :: real
  canvas_height :: real
  image_data :: "nat list"

text \<open>
  The fields of the class. \<open>color\<close>, \<open>canvas\<close> and \<open>svg\<close> are declared without a value, so
  they are \<open>undefined\<close> (\<open>None\<close>) until something assigns them.
\<close>

record HeatMap =
  settings :: HeatMapSettings
  xScale :: linear_scale
  yScale :: linear_scale
  colorScale :: linear_scale
  numSamples :: nat
  color :: "(number \<Rightarrow> nat \<times> nat \<times> nat) option"
  canvas :: "canvas_surface option"
  svg :: "svg_surface option"

text \<open>The palette: \<open>0x440154, 0x482878, 0x3e4989, ..., 0xfde725\<close> in decimal.\<close>

definition viridisColors :: "real list" where
  "viridisColors =
     [4456788, 4728952, 4082057, 3238030, 2523790, 2072201, 3520377, 7261784, 11918891, 16639781]"

text \<open>
  The callback that the constructor stores in \<open>window.onload\<close>: it appends the canvas and
  the svg to the container. It runs when the page has loaded, after the constructor.
\<close>

definition window_onload :: "real \<Rightarrow> HeatMap \<Rightarrow> HeatMap" where
  "window_onload width this =
     this\<lparr>canvas := Some \<lparr>canvas_width = width, canvas_height = width, image_data = []\<rparr>,
          svg := Some \<lparr>svg_width = width, svg_height = width, g_train = None, g_test = None\<rparr>\<rparr>"

text \<open>
  The object after the assignments of the constructor, lines 50 to 89: the settings are the
  defaults overwritten by the properties of \<open>userSettings\<close>, the scales are built, and
  nothing has assigned \<open>color\<close>, \<open>canvas\<close> or \<open>svg\<close>.
\<close>

definition HeatMap_fields ::
    "real \<Rightarrow> nat \<Rightarrow> real \<times> real \<Rightarrow> real \<times> real \<Rightarrow> HeatMapSettings \<Rightarrow> HeatMap" where
  "HeatMap_fields width n xDomain yDomain userSettings =
     \<lparr>settings = default_settings ++ userSettings,
      xScale = \<lparr>scale_domain = xDomain, scale_range = [0, width]\<rparr>,
      yScale = \<lparr>scale_domain = yDomain, scale_range = [width, 0]\<rparr>,
      colorScale = \<lparr>scale_domain = (0, 1), scale_range = viridisColors\<rparr>,
      numSamples = n,
      color = None,
      canvas = None,
      svg = None\<rparr>"

text \<open>
  The constructor. Line 52 reads \<open>userSettings.showAxes\<close> before line 54 tests
  \<open>userSettings != null\<close>, so an omitted argument throws there. Line 92 calls
  \<open>this.svg.selectAll\<close>, and \<open>this.svg\<close> is assigned by the deferred callback only. The
  container is used inside the callback only. The placeholder grid of lines 92 to 99 is
  cosmetic and leaves the fields as they are.
\<close>

definition HeatMap_constructor ::
    "real \<Rightarrow> nat \<Rightarrow> real \<times> real \<Rightarrow> real \<times> real \<Rightarrow> HeatMapSettings option \<Rightarrow> exn + HeatMap" where
  "HeatMap_constructor width n xDomain yDomain userSettings =
     (case userSettings of
        None \<Rightarrow> Inl TypeError
      | Some us \<Rightarrow>
          let padding = (if us ''showAxes'' = Some True then 20 else 0 :: nat);
              this = HeatMap_fields width n xDomain yDomain us
          in (case svg this of
                None \<Rightarrow> Inl TypeError
              | Some s \<Rightarrow> Inr this))"

fun number_le :: "number \<Rightarrow> number \<Rightarrow> bool" where
  "number_le (Num a) (Num b) = (a \<le> b)"
| "number_le NaN _ = False"
| "number_le _ NaN = False"
| "number_le NegInf _ = True"
| "number_le _ PosInf = True"
| "number_le _ _ = False"

text \<open>
  A scale applied to a coordinate that passed the bounds filter, which is a real; on
  anything else the interpolation gives \<open>NaN\<close> or an infinity, taken as \<open>NaN\<close>.
\<close>

definition scale_number :: "linear_scale \<Rightarrow> number \<Rightarrow> number" where
  "scale_number sc v = (case v of Num a \<Rightarrow> scale_apply sc a | _ \<Rightarrow> NaN)"

text \<open>
  \<open>updateCircles\<close> on the circles of the selected group. The points inside the bounds are
  joined to the circles by position: missing circles are appended with \<open>r = 3\<close>, the
  first \<open>length points\<close> circles get their position, then their fill from \<open>this.color\<close>
  (a \<open>TypeError\<close> on the first circle when \<open>color\<close> is undefined, leaving the circles
  positioned and the surplus in place), and the surplus circles are removed.
\<close>

definition updateCircles ::
    "HeatMap \<Rightarrow> circle list option \<Rightarrow> Example2D list \<Rightarrow> (exn + unit) \<times> circle list option" where
  "updateCircles this container points =
     (let xDomain = scale_domain (xScale this);
          yDomain = scale_domain (yScale this);
          points' = filter (\<lambda>p. number_le (Num (fst xDomain)) (px p) \<and> number_le (px p) (Num (snd xDomain))
                               \<and> number_le (Num (fst yDomain)) (py p) \<and> number_le (py p) (Num (snd yDomain)))
                      points
      in case container of
           None \<Rightarrow> (Inr (), None)
         | Some circles \<Rightarrow>
             let entered = circles @ replicate (length points' - length circles)
                             \<lparr>attr_cx = None, attr_cy = None, attr_r = 3, style_fill = None\<rparr>;
                 positioned = map (\<lambda>(c, d). c\<lparr>attr_cx := Some (scale_number (xScale this) (px d)),
                                               attr_cy := Some (scale_number (yScale this) (py d))\<rparr>)
                                (zip entered points');
                 surplus = drop (length points') circles
             in if points' = [] then (Inr (), Some [])
                else (case color this of
                        None \<Rightarrow> (Inl TypeError, Some (positioned @ surplus))
                      | Some col \<Rightarrow>
                          (Inr (), Some (map (\<lambda>(c, d). c\<lparr>style_fill := Some (col (label d))\<rparr>)
                                           (zip positioned points')))))"

definition updateTestPoints :: "HeatMap \<Rightarrow> Example2D list \<Rightarrow> (exn + unit) \<times> HeatMap" where
  "updateTestPoints this points =
     (if settings this ''noSvg'' = Some True then
        (Inl (Error ''Can't add points since noSvg=true''), this)
      else
        (case svg this of
           None \<Rightarrow> (Inl TypeError, this)
         | Some s \<Rightarrow>
             (case updateCircles this (g_test s) points of
                (res, circles) \<Rightarrow> (res, this\<lparr>svg := Some (s\<lparr>g_test := circles\<rparr>)\<rparr>))))"

definition updatePoints :: "HeatMap \<Rightarrow> Example2D list \<Rightarrow> (exn + unit) \<times> HeatMap" where
  "updatePoints this points =
     (if settings this ''noSvg'' = Some True then
        (Inl (Error ''Can't add points since noSvg=true''), this)
      else
        (case svg this of
           None \<Rightarrow> (Inl TypeError, this)
         | Some s \<Rightarrow>
             (case updateCircles this (g_train s) points of
                (res, circles) \<Rightarrow> (res, this\<lparr>svg := Some (s\<lparr>g_train := circles\<rparr>)\<rparr>))))"

text \<open>
  One cell of \<open>updateBackground\<close>: \<open>let value = data[x][y]\<close>, made \<open>1\<close> or \<open>-1\<close> when
  \<open>discretize\<close> is set, and coloured by \<open>this.color\<close>. A cell past the end of its row is
  \<open>undefined\<close>, which compares and converts like \<open>NaN\<close>.
\<close>

definition cell_color :: "HeatMap \<Rightarrow> real list list \<Rightarrow> bool \<Rightarrow> nat \<Rightarrow> nat \<Rightarrow> exn + nat \<times> nat \<times> nat" where
  "cell_color this data discretize c y =
     (if c < length data then
        (let v = (if y < length (data ! c) then Num (data ! c ! y) else NaN);
             v' = (if discretize then (if number_le (Num 0) v then Num 1 else Num (- 1)) else v)
         in case color this of
              None \<Rightarrow> Inl TypeError
            | Some col \<Rightarrow> Inr (col v'))
      else Inl TypeError)"

text \<open>\<open>for (let x = 0; x < dx; ++x)\<close>, writing red, green, blue and the alpha 160.\<close>

function paint_x :: "HeatMap \<Rightarrow> real list list \<Rightarrow> bool \<Rightarrow> nat \<Rightarrow> nat \<Rightarrow> nat \<Rightarrow> nat list \<Rightarrow> exn + nat list" where
  "paint_x this data discretize dx y c img =
     (if c < dx then
        (case cell_color this data discretize c y of
           Inl e \<Rightarrow> Inl e
         | Inr (red, green, blue) \<Rightarrow>
             paint_x this data discretize dx y (Suc c) (img @ [red, green, blue, 160]))
      else Inr img)"
  by pat_completeness auto
termination
  by (relation "measure (\<lambda>(this, data, discretize, dx, y, c, img). dx - c)") auto

declare paint_x.simps [simp del]

text \<open>\<open>for (let y = 0, p = -1; y < dy; ++y)\<close>.\<close>

function paint_y :: "HeatMap \<Rightarrow> real list list \<Rightarrow> bool \<Rightarrow> nat \<Rightarrow> nat \<Rightarrow> nat \<Rightarrow> nat list \<Rightarrow> exn + nat list" where
  "paint_y this data discretize dx dy y img =
     (if y < dy then
        (case paint_x this data discretize dx y 0 img of
           Inl e \<Rightarrow> Inl e
         | Inr img' \<Rightarrow> paint_y this data discretize dx dy (Suc y) img')
      else Inr img)"
  by pat_completeness auto
termination
  by (relation "measure (\<lambda>(this, data, discretize, dx, dy, y, img). dy - y)") auto

declare paint_y.simps [simp del]

definition updateBackground :: "HeatMap \<Rightarrow> real list list \<Rightarrow> bool \<Rightarrow> (exn + unit) \<times> HeatMap" where
  "updateBackground this data discretize =
     (case data of
        [] \<Rightarrow> (Inl TypeError, this)
      | row0 # _ \<Rightarrow>
          let dx = length row0; dy = length data
          in if dx \<noteq> numSamples this \<or> dy \<noteq> numSamples this then
               (Inl (Error ''The provided data matrix must be of size numSamples X numSamples''), this)
             else
               (case canvas this of
                  None \<Rightarrow> (Inl TypeError, this)
                | Some cv \<Rightarrow>
                    (case paint_y this data discretize dx dy 0 [] of
                       Inl e \<Rightarrow> (Inl e, this)
                     | Inr img \<Rightarrow> (Inr (), this\<lparr>canvas := Some (cv\<lparr>image_data := img\<rparr>)\<rparr>))))"

section \<open>heatmap.ts: reduceMatrix\<close>

text \<open>
  The matrix is an array of arrays of finite doubles. \<open>avg += matrix[i + k][j + l]\<close>
  rounds the sum to a double. A row index past the end reads \<open>undefined\<close>, whose
  indexing throws; a column index past the end of the row reads \<open>undefined\<close>, and
  \<open>avg + undefined\<close> is \<open>NaN\<close>.
\<close>

definition add_cell :: "double list list \<Rightarrow> nat \<Rightarrow> nat \<Rightarrow> number \<Rightarrow> exn + number" where
  "add_cell matrix r c avg =
     (if r < length matrix then
        (if c < length (matrix ! r) then
           Inr (round_number (plus_number avg (number_of_double (matrix ! r ! c))))
         else Inr NaN)
      else Inl TypeError)"

text \<open>\<open>for (let l = 0; l < factor; l++) avg += matrix[i + k][j + l];\<close>\<close>

function sum_l :: "double list list \<Rightarrow> nat \<Rightarrow> nat \<Rightarrow> nat \<Rightarrow> nat \<Rightarrow> nat \<Rightarrow> number \<Rightarrow> exn + number" where
  "sum_l matrix factor i j k l avg =
     (if l < factor then
        (case add_cell matrix (i + k) (j + l) avg of
           Inl e \<Rightarrow> Inl e
         | Inr avg' \<Rightarrow> sum_l matrix factor i j k (Suc l) avg')
      else Inr avg)"
  by pat_completeness auto
termination
  by (relation "measure (\<lambda>(matrix, factor, i, j, k, l, avg). factor - l)") auto

declare sum_l.simps [simp del]

text \<open>\<open>for (let k = 0; k < factor; k++) { for (let l ...) }\<close>\<close>

function sum_k :: "double list list \<Rightarrow> nat \<Rightarrow> nat \<Rightarrow> nat \<Rightarrow> nat \<Rightarrow> number \<Rightarrow> exn + number" where
  "sum_k matrix factor i j k avg =
     (if k < factor then
        (case sum_l matrix factor i j k 0 avg of
           Inl e \<Rightarrow> Inl e
         | Inr avg' \<Rightarrow> sum_k matrix factor i j (Suc k) avg')
      else Inr avg)"
  by pat_completeness auto
termination
  by (relation "measure (\<lambda>(matrix, factor, i, j, k, avg). factor - k)") auto

declare sum_k.simps [simp del]

text \<open>
  \<open>for (let j = 0; j < matrix.length; j += factor)\<close>: the block sum starts from \<open>avg = 0\<close>,
  is divided by \<open>factor * factor\<close> (the product and the quotient are rounded) and stored
  at \<open>result[i / factor][j / factor]\<close>. The row
  was allocated with \<open>matrix.length / factor\<close> slots and the indices \<open>j / factor\<close> are
  \<open>0, 1, 2, ...\<close> in this order, so the row is built by appending. The loop is entered
  only after the divisibility check, which a zero factor does not pass (\<open>n % 0\<close> is
  \<open>NaN\<close>); the guard \<open>0 < factor\<close> states this and makes the recursion total.
\<close>

function row_j :: "double list list \<Rightarrow> nat \<Rightarrow> nat \<Rightarrow> nat \<Rightarrow> number list \<Rightarrow> exn + number list" where
  "row_j matrix factor i j row =
     (if j < length matrix \<and> 0 < factor then
        (case sum_k matrix factor i j 0 (Num 0) of
           Inl e \<Rightarrow> Inl e
         | Inr avg \<Rightarrow>
             row_j matrix factor i (j + factor)
               (row @ [round_number
                         (divide_number avg (round_double (real factor * real factor)))]))
      else Inr row)"
  by pat_completeness auto
termination
  by (relation "measure (\<lambda>(matrix, factor, i, j, row). length matrix - j)") auto

declare row_j.simps [simp del]

text \<open>\<open>for (let i = 0; i < matrix.length; i += factor)\<close>, filling \<open>result[i / factor]\<close>.\<close>

function rows_i :: "double list list \<Rightarrow> nat \<Rightarrow> nat \<Rightarrow> number list list \<Rightarrow> exn + number list list" where
  "rows_i matrix factor i result =
     (if i < length matrix \<and> 0 < factor then
        (case row_j matrix factor i 0 [] of
           Inl e \<Rightarrow> Inl e
         | Inr row \<Rightarrow> rows_i matrix factor (i + factor) (result @ [row]))
      else Inr result)"
  by pat_completeness auto
termination
  by (relation "measure (\<lambda>(matrix, factor, i, result). length matrix - i)") auto

declare rows_i.simps [simp del]

text \<open>
  The factor is a non-negative integer here. \<open>matrix[0].length\<close> throws on the empty
  array; \<open>matrix.length % 0\<close> is \<open>NaN\<close>, which differs from \<open>0\<close>.
\<close>

definition reduceMatrix :: "double list list \<Rightarrow> nat \<Rightarrow> exn + number list list" where
  "reduceMatrix matrix factor =
     (case matrix of
        [] \<Rightarrow> Inl TypeError
      | row0 # _ \<Rightarrow>
          if length matrix \<noteq> length row0 then
            Inl (Error ''The provided matrix must be a square matrix'')
          else if factor = 0 \<or> length matrix mod factor \<noteq> 0 then
            Inl (Error ''The width/height of the matrix must be divisible by the reduction factor'')
          else rows_i matrix factor 0 [])"


section \<open>Error kinds of the specification\<close>

text \<open>
  The specification names three kinds of errors in its section 7 (ConfigurationError,
  DimensionError, LifecycleError). They are not classes of the source, which throws plain
  \<open>Error\<close>s with a message. The kind of a thrown error is read off its message: the
  message about \<open>noSvg\<close> is the configuration error, the three messages about matrix
  sizes are the dimension error. No \<open>throw\<close> of the source speaks of the lifecycle.
\<close>

datatype error_kind = ConfigurationError | DimensionError | LifecycleError | OtherError

fun error_kind_of :: "exn \<Rightarrow> error_kind" where
  "error_kind_of (Error msg) =
     (if msg = ''Can't add points since noSvg=true'' then ConfigurationError
      else if msg = ''The provided matrix must be a square matrix''
            \<or> msg = ''The width/height of the matrix must be divisible by the reduction factor''
            \<or> msg = ''The provided data matrix must be of size numSamples X numSamples''
      then DimensionError
      else OtherError)"
| "error_kind_of TypeError = OtherError"

text \<open>
  A square matrix is a non-empty array whose rows all have as many cells as there are
  rows. The block mean follows the words of the specification: the arithmetic mean of the
  \<open>f \<times> f\<close> block at rows \<open>f\<cdot>i .. f\<cdot>i+f-1\<close> and columns \<open>f\<cdot>j .. f\<cdot>j+f-1\<close>.
\<close>

definition square :: "'a list list \<Rightarrow> bool" where
  "square m = (m \<noteq> [] \<and> (\<forall>row \<in> set m. length row = length m))"

definition block_mean :: "double list list \<Rightarrow> nat \<Rightarrow> nat \<Rightarrow> nat \<Rightarrow> real" where
  "block_mean m f i j =
     (\<Sum>k = 0..<f. \<Sum>l = 0..<f. Rep_double (m ! (f * i + k) ! (f * j + l))) / (real f * real f)"

text \<open>
  The same mean in double arithmetic: the cells of the block, row by row, are added to
  \<open>0\<close> one after the other and every sum is rounded; the total is divided by the rounded
  product \<open>f * f\<close> and the quotient is rounded.
\<close>

definition block_cells :: "double list list \<Rightarrow> nat \<Rightarrow> nat \<Rightarrow> nat \<Rightarrow> double list" where
  "block_cells m f i j =
     concat (map (\<lambda>k. map (\<lambda>l. m ! (f * i + k) ! (f * j + l)) [0..<f]) [0..<f])"

definition double_sum :: "number \<Rightarrow> double list \<Rightarrow> number" where
  "double_sum avg cells =
     foldl (\<lambda>a d. round_number (plus_number a (number_of_double d))) avg cells"

definition double_block_mean :: "double list list \<Rightarrow> nat \<Rightarrow> nat \<Rightarrow> nat \<Rightarrow> number" where
  "double_block_mean m f i j =
     round_number
       (divide_number (double_sum (Num 0) (block_cells m f i j))
          (round_double (real f * real f)))"

text \<open>
  No step of that computation rounds: every partial sum of the cells, the product
  \<open>f * f\<close> and the mean itself are doubles.
\<close>

definition exact_block :: "double list list \<Rightarrow> nat \<Rightarrow> nat \<Rightarrow> nat \<Rightarrow> bool" where
  "exact_block m f i j =
     ((\<forall>n \<le> length (block_cells m f i j).
         round_double (sum_list (map Rep_double (take n (block_cells m f i j))))
           = Num (sum_list (map Rep_double (take n (block_cells m f i j)))))
      \<and> round_double (real f * real f) = Num (real f * real f)
      \<and> round_double (block_mean m f i j) = Num (block_mean m f i j))"







text \<open>A generator that returns the same number at every draw, for concrete runs.\<close>

definition constant_rng :: "real \<Rightarrow> rng" where
  "constant_rng c = (\<lambda>n. c)"

section \<open>Properties of rounding\<close>

lemma round_half_even_int: "round_half_even (of_int m) = m"
  by (simp add: round_half_even_def)

lemma round_double_exact:
  assumes n: "\<bar>n\<bar> < 2 ^ 53" and j: "- 1074 \<le> j"
    and fin: "\<bar>of_int n * 2 powr of_int j\<bar> < (2 :: real) ^ 1024"
  shows "round_double (of_int n * 2 powr of_int j) = Num (of_int n * 2 powr of_int j)"
proof (cases "n = 0")
  case True
  then show ?thesis by (simp add: round_double_def)
next
  case False
  define v :: real where "v = of_int n * 2 powr of_int j"
  have v0: "v \<noteq> 0" using False by (simp add: v_def)
  define e where "e = max \<lfloor>log 2 \<bar>v\<bar>\<rfloor> (- 1022)"
  have "\<bar>v\<bar> = \<bar>of_int n\<bar> * 2 powr of_int j" by (simp add: v_def abs_mult)
  also have "\<dots> < 2 ^ 53 * 2 powr of_int j"
  proof -
    have "\<bar>of_int n :: real\<bar> < 2 ^ 53"
      using n by (metis of_int_abs of_int_less_numeral_power_cancel_iff)
    then show ?thesis by simp
  qed
  also have "\<dots> = 2 powr (of_int (53 + j))"
    by (simp add: powr_add powr_realpow[symmetric])
  finally have lt: "\<bar>v\<bar> < 2 powr (of_int (53 + j))" .
  have "log 2 \<bar>v\<bar> < of_int (53 + j)"
    using lt v0 by (simp add: log_less_iff)
  then have "\<lfloor>log 2 \<bar>v\<bar>\<rfloor> < 53 + j" by (simp add: floor_less_iff)
  then have le: "e - 52 \<le> j" using j by (simp add: e_def)
  define k where "k = nat (j - (e - 52))"
  have jk: "j = (e - 52) + int k" using le by (simp add: k_def)
  have ulp: "(2::real) powr of_int j = 2 ^ k * 2 powr of_int (e - 52)"
    by (subst jk) (simp add: powr_add powr_realpow del: of_int_diff)
  have q: "v / 2 powr of_int (e - 52) = of_int (n * 2 ^ k)"
    unfolding v_def ulp by simp
  have w: "of_int (round_half_even (v / 2 powr of_int (e - 52))) * 2 powr of_int (e - 52) = v"
    unfolding q round_half_even_int by (simp add: v_def ulp)
  have "round_double v = Num v"
    using v0 fin w unfolding round_double_def e_def[symmetric] Let_def v_def[symmetric]
    by (simp del: of_int_diff)
  then show ?thesis by (simp add: v_def)
qed

lemma abs_int_bound: "\<bar>n\<bar> < 2 ^ 53 \<Longrightarrow> \<bar>real_of_int n\<bar> < 2 ^ 53" for n :: int
  by (metis of_int_abs of_int_less_numeral_power_cancel_iff)

lemma pow_53_1024: "(2 :: real) ^ 53 < 2 ^ 1024"
  by (rule power_strict_increasing) simp_all

lemma round_double_int:
  assumes "\<bar>n\<bar> < 2 ^ 53"
  shows "round_double (of_int n) = Num (of_int n)"
proof -
  have "\<bar>of_int n * 2 powr of_int 0\<bar> < (2 :: real) ^ 1024"
    using abs_int_bound[OF assms] pow_53_1024 by simp
  from round_double_exact[OF assms _ this] show ?thesis by simp
qed

lemma round_double_numeral:
  "(numeral w :: int) < 2 ^ 53 \<Longrightarrow> round_double (numeral w) = Num (numeral w)"
  using round_double_int[of "numeral w"] by simp

lemma round_double_neg_numeral:
  "(numeral w :: int) < 2 ^ 53 \<Longrightarrow> round_double (- numeral w) = Num (- numeral w)"
  using round_double_int[of "- numeral w"] by simp

lemma round_double_0: "round_double 0 = Num 0"
  by (simp add: round_double_def)

lemma round_double_1: "round_double 1 = Num 1"
  using round_double_int[of 1] by simp

lemma round_double_half:
  assumes b: "\<bar>n\<bar> < 2 ^ 53"
  shows "round_double (of_int n / 2) = Num (of_int n / 2)"
proof -
  have p: "(2::real) powr of_int (- 1) = 1 / 2" by (simp add: powr_minus_divide)
  have "\<bar>real_of_int n * (1 / 2)\<bar> \<le> \<bar>real_of_int n\<bar>" by (simp add: abs_mult)
  then have "\<bar>of_int n * 2 powr of_int (- 1)\<bar> < (2 :: real) ^ 1024"
    unfolding p using abs_int_bound[OF b] pow_53_1024 by linarith
  from round_double_exact[OF b _ this] show ?thesis unfolding p by simp
qed

lemma round_double_twice:
  assumes b: "\<bar>n\<bar> < 2 ^ 53"
  shows "round_double (of_int n * 2) = Num (of_int n * 2)"
proof -
  have p: "(2::real) powr of_int 1 = 2" by simp
  have "(2 :: real) ^ 54 \<le> 2 ^ 1024" by (rule power_increasing) simp_all
  moreover have "\<bar>real_of_int n * 2\<bar> < 2 ^ 54" using abs_int_bound[OF b] by (simp add: abs_mult)
  ultimately have f: "\<bar>of_int n * 2 powr of_int 1\<bar> < (2 :: real) ^ 1024"
    unfolding p by linarith
  from round_double_exact[OF b _ f] show ?thesis unfolding p by simp
qed

lemma round_double_tie: "round_double 10000000000000001 = Num 10000000000000000"
proof -
  have "(2::real) powr real_of_int 53 = 2 ^ 53" "(2::real) powr real_of_int (53 + 1) = 2 ^ 54"
    using powr_realpow[of "2::real" 53] powr_realpow[of "2::real" 54] by simp_all
  then have "(2::real) powr real_of_int 53 \<le> 10000000000000001
      \<and> (10000000000000001::real) < 2 powr real_of_int (53 + 1)"
    by simp
  then have e: "\<lfloor>log 2 \<bar>10000000000000001 :: real\<bar>\<rfloor> = 53"
    by (subst floor_log_eq_powr_iff) simp_all
  have u: "(2::real) powr real_of_int (max 53 (- 1022) - 52) = 2" by simp
  show ?thesis
    unfolding round_double_def Let_def e u
    by (simp add: round_half_even_def)
qed

lemma round_double_Rep: "round_double (Rep_double d) = Num (Rep_double d)"
  using Rep_double[of d] by simp

lemma Rep_double_of: "round_double v = Num v \<Longrightarrow> Rep_double (double_of v) = v"
  by (simp add: double_of_def Abs_double_inverse)

lemma number_of_double_of: "round_double v = Num v \<Longrightarrow> number_of_double (double_of v) = Num v"
  by (simp add: number_of_double_def Rep_double_of)

section \<open>Properties of reduceMatrix\<close>

lemma sum_l_eq:
  assumes "r + k < length m" "\<forall>l'. l \<le> l' \<and> l' < f \<longrightarrow> c + l' < length (m ! (r + k))"
  shows "sum_l m f r c k l avg
         = Inr (double_sum avg (map (\<lambda>l'. m ! (r + k) ! (c + l')) [l..<f]))"
  using assms
proof (induction "f - l" arbitrary: l avg)
  case 0
  then show ?case by (subst sum_l.simps) (simp add: double_sum_def)
next
  case (Suc n)
  then have lt: "l < f" by simp
  have step: "add_cell m (r + k) (c + l) avg
              = Inr (round_number (plus_number avg (number_of_double (m ! (r + k) ! (c + l)))))"
    using Suc.prems lt by (simp add: add_cell_def)
  have "sum_l m f r c k (Suc l) (round_number (plus_number avg (number_of_double (m ! (r + k) ! (c + l)))))
        = Inr (double_sum (round_number (plus_number avg (number_of_double (m ! (r + k) ! (c + l)))))
                 (map (\<lambda>l'. m ! (r + k) ! (c + l')) [Suc l..<f]))"
    using Suc.hyps(2) Suc.prems by (intro Suc.hyps(1)) auto
  then show ?case using lt step
    by (subst sum_l.simps) (simp add: upt_conv_Cons[of l] double_sum_def)
qed

lemma sum_k_eq:
  assumes "\<forall>k'. k \<le> k' \<and> k' < f \<longrightarrow> r + k' < length m \<and> (\<forall>l'. l' < f \<longrightarrow> c + l' < length (m ! (r + k')))"
  shows "sum_k m f r c k avg
         = Inr (double_sum avg (concat (map (\<lambda>k'. map (\<lambda>l'. m ! (r + k') ! (c + l')) [0..<f]) [k..<f])))"
  using assms
proof (induction "f - k" arbitrary: k avg)
  case 0
  then show ?case by (subst sum_k.simps) (simp add: double_sum_def)
next
  case (Suc n)
  then have lt: "k < f" by simp
  have step: "sum_l m f r c k 0 avg = Inr (double_sum avg (map (\<lambda>l'. m ! (r + k) ! (c + l')) [0..<f]))"
    using Suc.prems lt by (intro sum_l_eq) auto
  have "sum_k m f r c (Suc k) (double_sum avg (map (\<lambda>l'. m ! (r + k) ! (c + l')) [0..<f]))
        = Inr (double_sum (double_sum avg (map (\<lambda>l'. m ! (r + k) ! (c + l')) [0..<f]))
                 (concat (map (\<lambda>k'. map (\<lambda>l'. m ! (r + k') ! (c + l')) [0..<f]) [Suc k..<f])))"
    using Suc.hyps(2) Suc.prems by (intro Suc.hyps(1)) auto
  then show ?case using lt step
    by (subst sum_k.simps) (simp add: upt_conv_Cons[of k] double_sum_def)
qed

lemma block_eq:
  assumes "square m" "0 < f" "f * i + f \<le> length m" "f * j + f \<le> length m"
  shows "sum_k m f (f * i) (f * j) 0 (Num 0) = Inr (double_sum (Num 0) (block_cells m f i j))"
  unfolding block_cells_def
proof (rule sum_k_eq, intro allI impI conjI)
  fix k' assume "0 \<le> k' \<and> k' < f"
  then show a: "f * i + k' < length m" using assms by simp
  fix l' assume "l' < f"
  have "length (m ! (f * i + k')) = length m"
    using a assms(1) by (simp add: square_def)
  then show "f * j + l' < length (m ! (f * i + k'))" using \<open>l' < f\<close> assms by simp
qed

lemma row_j_eq:
  assumes "square m" "0 < f" "f dvd length m" "f * i + f \<le> length m" "q \<le> length m div f"
  shows "row_j m f (f * i) (f * q) row
         = Inr (row @ map (\<lambda>j. double_block_mean m f i j) [q..<length m div f])"
  using assms(5)
proof (induction "length m div f - q" arbitrary: q row)
  case 0
  then have "q = length m div f" by simp
  then have "\<not> f * q < length m" using assms(3) by simp
  then show ?case using \<open>q = length m div f\<close> by (subst row_j.simps) simp
next
  case (Suc n)
  then have lt: "q < length m div f" by simp
  then have "Suc q \<le> length m div f" by simp
  then have "f * Suc q \<le> f * (length m div f)" using mult_le_mono2 by blast
  then have le: "f * q + f \<le> length m" using assms(3) by simp
  then have lt': "f * q < length m" using assms(2) by simp
  have blk: "sum_k m f (f * i) (f * q) 0 (Num 0) = Inr (double_sum (Num 0) (block_cells m f i q))"
    using assms le by (intro block_eq) auto
  have "row_j m f (f * i) (f * Suc q) (row @ [double_block_mean m f i q])
        = Inr ((row @ [double_block_mean m f i q]) @ map (\<lambda>j. double_block_mean m f i j) [Suc q..<length m div f])"
    using Suc.hyps(2) lt by (intro Suc.hyps(1)) auto
  then show ?case using lt lt' blk assms(2)
    by (subst row_j.simps) (simp add: upt_conv_Cons[of q] add.commute double_block_mean_def)
qed

lemma rows_i_eq:
  assumes "square m" "0 < f" "f dvd length m" "p \<le> length m div f"
  shows "rows_i m f (f * p) result
         = Inr (result @ map (\<lambda>i. map (\<lambda>j. double_block_mean m f i j) [0..<length m div f]) [p..<length m div f])"
  using assms(4)
proof (induction "length m div f - p" arbitrary: p result)
  case 0
  then have "p = length m div f" by simp
  then have "\<not> f * p < length m" using assms(3) by simp
  then show ?case using \<open>p = length m div f\<close> by (subst rows_i.simps) simp
next
  case (Suc n)
  then have lt: "p < length m div f" by simp
  then have "Suc p \<le> length m div f" by simp
  then have "f * Suc p \<le> f * (length m div f)" using mult_le_mono2 by blast
  then have le: "f * p + f \<le> length m" using assms(3) by simp
  then have lt': "f * p < length m" using assms(2) by simp
  have row: "row_j m f (f * p) 0 [] = Inr (map (\<lambda>j. double_block_mean m f p j) [0..<length m div f])"
    using row_j_eq[OF assms(1,2,3) le, of 0 "[]"] by simp
  have "rows_i m f (f * Suc p) (result @ [map (\<lambda>j. double_block_mean m f p j) [0..<length m div f]])
        = Inr ((result @ [map (\<lambda>j. double_block_mean m f p j) [0..<length m div f]])
               @ map (\<lambda>i. map (\<lambda>j. double_block_mean m f i j) [0..<length m div f]) [Suc p..<length m div f])"
    using Suc.hyps(2) lt by (intro Suc.hyps(1)) auto
  then show ?case using lt lt' row assms(2)
    by (subst rows_i.simps) (simp add: upt_conv_Cons[of p] add.commute)
qed

lemma reduceMatrix_square:
  assumes "square m" "0 < f" "f dvd length m"
  shows "reduceMatrix m f
         = Inr (map (\<lambda>i. map (\<lambda>j. double_block_mean m f i j) [0..<length m div f]) [0..<length m div f])"
proof -
  obtain row0 rest where m: "m = row0 # rest" using assms(1) by (cases m) (auto simp: square_def)
  have l0: "length row0 = length m" using assms(1) m by (simp add: square_def)
  have "rows_i m f (f * 0) [] = Inr ([] @ map (\<lambda>i. map (\<lambda>j. double_block_mean m f i j) [0..<length m div f]) [0..<length m div f])"
    using assms by (intro rows_i_eq) auto
  then have "rows_i m f 0 [] = Inr (map (\<lambda>i. map (\<lambda>j. double_block_mean m f i j) [0..<length m div f]) [0..<length m div f])"
    by simp
  moreover have "length m mod f = 0" using assms(3) by auto
  ultimately show ?thesis using assms(2) l0 unfolding reduceMatrix_def m
    by simp
qed

lemma double_sum_snoc:
  "double_sum avg (cells @ [d]) = round_number (plus_number (double_sum avg cells) (number_of_double d))"
  by (simp add: double_sum_def)

lemma double_sum_exact:
  assumes "\<forall>n \<le> length cells. round_double (sum_list (map Rep_double (take n cells)))
             = Num (sum_list (map Rep_double (take n cells)))"
  shows "double_sum (Num 0) cells = Num (sum_list (map Rep_double cells))"
  using assms
proof (induction cells rule: rev_induct)
  case Nil
  then show ?case by (simp add: double_sum_def)
next
  case (snoc d cells)
  have "\<forall>n \<le> length cells. round_double (sum_list (map Rep_double (take n cells)))
             = Num (sum_list (map Rep_double (take n cells)))"
  proof (intro allI impI)
    fix n assume n: "n \<le> length cells"
    then have "take n (cells @ [d]) = take n cells" by simp
    moreover have "n \<le> length (cells @ [d])" using n by simp
    ultimately show "round_double (sum_list (map Rep_double (take n cells)))
             = Num (sum_list (map Rep_double (take n cells)))"
      using snoc.prems by metis
  qed
  then have ih: "double_sum (Num 0) cells = Num (sum_list (map Rep_double cells))"
    by (rule snoc.IH)
  have "round_double (sum_list (map Rep_double (take (length (cells @ [d])) (cells @ [d]))))
        = Num (sum_list (map Rep_double (take (length (cells @ [d])) (cells @ [d]))))"
    using snoc.prems by blast
  then have "round_double (sum_list (map Rep_double cells) + Rep_double d)
        = Num (sum_list (map Rep_double cells) + Rep_double d)" by simp
  then show ?case
    by (simp add: double_sum_snoc ih number_of_double_def round_number_def)
qed

lemma sum_list_concat_map:
  "sum_list (map g (concat xss)) = sum_list (map (\<lambda>xs. sum_list (map g xs)) xss)" for g :: "'a \<Rightarrow> real"
  by (induction xss) simp_all

lemma sum_block_cells:
  "sum_list (map Rep_double (block_cells m f i j))
   = (\<Sum>k = 0..<f. \<Sum>l = 0..<f. Rep_double (m ! (f * i + k) ! (f * j + l)))"
  by (simp add: block_cells_def sum_list_concat_map comp_def interv_sum_list_conv_sum_set_nat)

lemma double_block_mean_exact:
  assumes "exact_block m f i j" and "0 < f"
  shows "double_block_mean m f i j = Num (block_mean m f i j)"
proof -
  have s: "double_sum (Num 0) (block_cells m f i j) = Num (sum_list (map Rep_double (block_cells m f i j)))"
    using assms(1) by (intro double_sum_exact) (simp add: exact_block_def)
  have p: "round_double (real f * real f) = Num (real f * real f)"
    and q: "round_double (block_mean m f i j) = Num (block_mean m f i j)"
    using assms(1) by (simp_all add: exact_block_def)
  have nz: "real f * real f \<noteq> 0" using assms(2) by simp
  have "block_mean m f i j = sum_list (map Rep_double (block_cells m f i j)) / (real f * real f)"
    by (simp add: block_mean_def sum_block_cells)
  then show ?thesis
    using nz q by (simp add: double_block_mean_def s p round_number_def)
qed

lemma double_block_mean_1: "double_block_mean m 1 i j = number_of_double (m ! i ! j)"
  by (simp add: double_block_mean_def block_cells_def double_sum_def number_of_double_def
      round_number_def round_double_Rep round_double_1)

lemma map_nth_square:
  assumes "square m"
  shows "map (\<lambda>i. map (\<lambda>j. g (m ! i ! j)) [0..<length m]) [0..<length m] = map (map g) m"
proof (rule nth_equalityI)
  show "length (map (\<lambda>i. map (\<lambda>j. g (m ! i ! j)) [0..<length m]) [0..<length m]) = length (map (map g) m)"
    by simp
next
  fix i assume "i < length (map (\<lambda>i. map (\<lambda>j. g (m ! i ! j)) [0..<length m]) [0..<length m])"
  then have i: "i < length m" by simp
  then have len: "length (m ! i) = length m" using assms by (simp add: square_def)
  have "map (\<lambda>j. g (m ! i ! j)) [0..<length m] = map g (m ! i)"
    by (rule nth_equalityI) (simp_all add: len)
  then show "map (\<lambda>i. map (\<lambda>j. g (m ! i ! j)) [0..<length m]) [0..<length m] ! i = map (map g) m ! i"
    using i by simp
qed

lemmas round_small =
  round_double_0 round_double_1 round_double_numeral round_double_neg_numeral
  number_of_double_of Rep_double_of round_number_def

lemma reduceMatrix_example:
  "reduceMatrix (map (map double_of) [[1, 2, 3, 4], [5, 6, 7, 8], [9, 10, 11, 12], [13, 14, 15, 16]]) 2
     = Inr [[Num 3.5, Num 5.5], [Num 11.5, Num 13.5]]"
proof -
  have h: "round_double (7 / 2) = Num (7 / 2)" "round_double (11 / 2) = Num (11 / 2)"
      "round_double (23 / 2) = Num (23 / 2)" "round_double (27 / 2) = Num (27 / 2)"
    using round_double_half[of 7] round_double_half[of 11] round_double_half[of 23]
      round_double_half[of 27] by simp_all
  show ?thesis
    by (simp add: reduceMatrix_def rows_i.simps row_j.simps sum_k.simps sum_l.simps add_cell_def
        round_small h)
qed

subsection \<open>Block means\<close>

text \<open>
  Claim C5, as the code has it. For a square matrix of side \<open>s\<close> and a positive factor
  \<open>f\<close> that divides \<open>s\<close>, \<open>reduceMatrix\<close> returns a square matrix of side \<open>s / f\<close> whose
  cell \<open>(i, j)\<close> is the mean of the \<open>f \<times> f\<close> block of the input at rows
  \<open>f\<cdot>i .. f\<cdot>i+f-1\<close> and columns \<open>f\<cdot>j .. f\<cdot>j+f-1\<close> as double arithmetic computes it: the
  cells of the block are added to \<open>0\<close> row by row, every sum rounded, and the total is
  divided by \<open>f * f\<close> and rounded. The cell is the exact arithmetic mean of the block when
  no step rounds; the 4 by 4 matrix of the values 1 to 16 reduces by 2 to
  \<open>[[3.5, 5.5], [11.5, 13.5]]\<close>.
\<close>

theorem reduceMatrix_block_means:
  assumes "square m" and "0 < f" and "f dvd length m"
  shows "(\<exists>res. reduceMatrix m f = Inr res
           \<and> length res = length m div f
           \<and> (\<forall>i < length m div f. length (res ! i) = length m div f
                \<and> (\<forall>j < length m div f.
                      res ! i ! j = double_block_mean m f i j
                      \<and> (exact_block m f i j \<longrightarrow> res ! i ! j = Num (block_mean m f i j)))))
     \<and> reduceMatrix (map (map double_of) [[1, 2, 3, 4], [5, 6, 7, 8], [9, 10, 11, 12], [13, 14, 15, 16]]) 2
           = Inr [[Num 3.5, Num 5.5], [Num 11.5, Num 13.5]]"
proof (rule conjI)
  show "\<exists>res. reduceMatrix m f = Inr res
           \<and> length res = length m div f
           \<and> (\<forall>i < length m div f. length (res ! i) = length m div f
                \<and> (\<forall>j < length m div f.
                      res ! i ! j = double_block_mean m f i j
                      \<and> (exact_block m f i j \<longrightarrow> res ! i ! j = Num (block_mean m f i j))))"
    using reduceMatrix_square[OF assms] double_block_mean_exact[OF _ assms(2)] by simp
  show "reduceMatrix (map (map double_of) [[1, 2, 3, 4], [5, 6, 7, 8], [9, 10, 11, 12], [13, 14, 15, 16]]) 2
           = Inr [[Num 3.5, Num 5.5], [Num 11.5, Num 13.5]]"
    by (rule reduceMatrix_example)
qed

theorem reduceMatrix_block_means_witness:
  "square (map (map double_of) [[1, 2], [3, 4]])
   \<and> (0::nat) < 2 \<and> (2::nat) dvd length (map (map double_of) [[1, 2], [3, 4]])
   \<and> exact_block (map (map double_of) [[1, 2], [3, 4]]) 2 0 0
   \<and> reduceMatrix (map (map double_of) [[1, 2], [3, 4]]) 2 = Inr [[Num 2.5]]"
proof -
  let ?m = "map (map double_of) [[1, 2], [3, 4]]"
  have sq: "square ?m" by (simp add: square_def)
  have dv: "(2::nat) dvd length ?m" by simp
  have cells: "block_cells ?m 2 0 0 = [double_of 1, double_of 2, double_of 3, double_of 4]"
    by (simp add: block_cells_def numeral_2_eq_2)
  have h: "round_double (5 / 2) = Num (5 / 2)" using round_double_half[of 5] by simp
  have mean: "block_mean ?m 2 0 0 = 5 / 2"
    by (simp add: block_mean_def numeral_2_eq_2 round_small)
  have ex: "exact_block ?m 2 0 0"
    unfolding exact_block_def cells mean
  proof (intro conjI allI impI)
    fix n :: nat assume "n \<le> length [double_of 1, double_of 2, double_of 3, double_of 4]"
    then have "n = 0 \<or> n = 1 \<or> n = 2 \<or> n = 3 \<or> n = 4" by auto
    then show "round_double (sum_list (map Rep_double (take n [double_of 1, double_of 2, double_of 3, double_of 4])))
        = Num (sum_list (map Rep_double (take n [double_of 1, double_of 2, double_of 3, double_of 4])))"
      by (elim disjE) (simp_all add: round_small)
  next
    show "round_double (real 2 * real 2) = Num (real 2 * real 2)" by (simp add: round_small)
    show "round_double (5 / 2) = Num (5 / 2)" by (rule h)
  qed
  from reduceMatrix_block_means[OF sq _ dv]
  obtain res where res: "reduceMatrix ?m 2 = Inr res" "length res = 1"
      "length (res ! 0) = 1" "exact_block ?m 2 0 0 \<longrightarrow> res ! 0 ! 0 = Num (block_mean ?m 2 0 0)"
    by auto
  have "res = [res ! 0]" using res(2) by (cases res) auto
  moreover have "res ! 0 = [res ! 0 ! 0]" using res(3) by (cases "res ! 0") auto
  ultimately have "res = [[Num 2.5]]" using res(4) ex mean by simp
  then show ?thesis using sq dv ex res(1) by simp
qed

text \<open>
  The claim as it was stated, with the exact arithmetic mean in every cell, fails where a
  sum rounds: in the block \<open>[[1e16, 1], [-1e16, 0]]\<close> the sum \<open>1e16 + 1\<close> is a tie and
  rounds to \<open>1e16\<close>, so the cell is \<open>0\<close> and the arithmetic mean is \<open>0.25\<close>.
\<close>

theorem reduceMatrix_block_means_counterexample:
  "square (map (map double_of) [[10000000000000000, 1], [- 10000000000000000, 0]])
   \<and> (2::nat) dvd length (map (map double_of) [[10000000000000000, 1], [- 10000000000000000, 0]])
   \<and> reduceMatrix (map (map double_of) [[10000000000000000, 1], [- 10000000000000000, 0]]) 2
       = Inr [[Num 0]]
   \<and> block_mean (map (map double_of) [[10000000000000000, 1], [- 10000000000000000, 0]]) 2 0 0
       = 1 / 4"
proof -
  have big: "round_double 10000000000000000 = Num 10000000000000000"
      "round_double (- 10000000000000000) = Num (- 10000000000000000)"
    using round_double_twice[of 5000000000000000] round_double_twice[of "- 5000000000000000"]
    by simp_all
  have red: "reduceMatrix (map (map double_of) [[10000000000000000, 1], [- 10000000000000000, 0]]) 2
       = Inr [[Num 0]]"
    by (simp add: reduceMatrix_def rows_i.simps row_j.simps sum_k.simps sum_l.simps add_cell_def
        round_small big round_double_tie)
  have mean: "block_mean (map (map double_of) [[10000000000000000, 1], [- 10000000000000000, 0]]) 2 0 0
       = 1 / 4"
    by (simp add: block_mean_def numeral_2_eq_2 round_small big)
  show ?thesis using red mean by (simp add: square_def)
qed

subsection \<open>Factor one\<close>

text \<open>
  Claim C6. Reducing a square matrix by the factor 1 returns the matrix itself: the same
  side and the same cells.
\<close>

theorem reduceMatrix_factor_1:
  assumes "square m"
  shows "reduceMatrix m 1 = Inr (map (map number_of_double) m)"
proof -
  have "reduceMatrix m 1
        = Inr (map (\<lambda>i. map (\<lambda>j. double_block_mean m 1 i j) [0..<length m div 1]) [0..<length m div 1])"
    using assms by (intro reduceMatrix_square) auto
  then have "reduceMatrix m 1
        = Inr (map (\<lambda>i. map (\<lambda>j. number_of_double (m ! i ! j)) [0..<length m]) [0..<length m])"
    by (simp only: double_block_mean_1 div_by_1)
  then show ?thesis using map_nth_square[OF assms, of number_of_double]
    by simp
qed

theorem reduceMatrix_factor_1_witness:
  "square (map (map double_of) [[1, 2], [3, 4]])
   \<and> reduceMatrix (map (map double_of) [[1, 2], [3, 4]]) 1 = Inr [[Num 1, Num 2], [Num 3, Num 4]]"
proof -
  have sq: "square (map (map double_of) [[1, 2], [3, 4]])" by (simp add: square_def)
  show ?thesis using sq reduceMatrix_factor_1[OF sq] by (simp add: round_small)
qed

subsection \<open>Rejected dimensions\<close>

text \<open>
  Claim C7, as the code has it. \<open>reduceMatrix\<close> throws a dimension error and returns
  nothing when the matrix is not empty and its number of rows differs from the length of
  its first row, or is not divisible by the factor. The code measures the first row only.
\<close>

theorem reduceMatrix_dimension_error:
  assumes "m \<noteq> []" and "length m \<noteq> length (hd m) \<or> \<not> f dvd length m"
  shows "\<exists>e. reduceMatrix m f = Inl e \<and> error_kind_of e = DimensionError"
proof -
  obtain row0 rest where m: "m = row0 # rest" using assms(1) by (cases m) auto
  show ?thesis
  proof (cases "length m = length row0")
    case False
    then show ?thesis by (simp add: reduceMatrix_def m)
  next
    case True
    then have nd: "\<not> f dvd length m" using assms(2) by (simp add: m)
    then have "f = 0 \<or> length m mod f \<noteq> 0" by (auto simp: dvd_eq_mod_eq_0)
    then show ?thesis using True unfolding reduceMatrix_def m by auto
  qed
qed

theorem reduceMatrix_dimension_error_witness:
  "map (map double_of) [[1, 2, 3], [4, 5, 6]] \<noteq> []
   \<and> length (map (map double_of) [[1, 2, 3], [4, 5, 6]]) \<noteq> length (hd (map (map double_of) [[1, 2, 3], [4, 5, 6]]))
   \<and> reduceMatrix (map (map double_of) [[1, 2, 3], [4, 5, 6]]) 1
       = Inl (Error ''The provided matrix must be a square matrix'')
   \<and> map (map double_of) [[1, 2], [3, 4]] \<noteq> []
   \<and> \<not> (3::nat) dvd length (map (map double_of) [[1, 2], [3, 4]])
   \<and> reduceMatrix (map (map double_of) [[1, 2], [3, 4]]) 3
       = Inl (Error ''The width/height of the matrix must be divisible by the reduction factor'')"
proof -
  have a: "map (map double_of) [[1, 2, 3], [4, 5, 6]] \<noteq> []" by simp
  have b: "length (map (map double_of) [[1, 2, 3], [4, 5, 6]])
        \<noteq> length (hd (map (map double_of) [[1, 2, 3], [4, 5, 6]]))" by simp
  have c: "map (map double_of) [[1, 2], [3, 4]] \<noteq> []" by simp
  have d: "\<not> (3::nat) dvd length (map (map double_of) [[1, 2], [3, 4]])" by code_simp
  from reduceMatrix_dimension_error[OF a disjI1[OF b], of 1]
  have "\<exists>e. reduceMatrix (map (map double_of) [[1, 2, 3], [4, 5, 6]]) 1 = Inl e" by blast
  moreover from reduceMatrix_dimension_error[OF c disjI2[OF d]]
  have "\<exists>e. reduceMatrix (map (map double_of) [[1, 2], [3, 4]]) 3 = Inl e" by blast
  ultimately show ?thesis using a b c d by (simp add: reduceMatrix_def)
qed

text \<open>
  The claim as it was stated, for every matrix that is not square, fails on a ragged
  array whose first row is as long as the array: \<open>[[1, 2], [3]]\<close> passes both checks and
  the missing cell is \<open>NaN\<close> in the result. The empty array throws a \<open>TypeError\<close> at
  \<open>matrix[0].length\<close>, which is no dimension error.
\<close>

theorem reduceMatrix_dimension_error_counterexample:
  "\<not> square [[double_of 1, double_of 2], [double_of 3]]
   \<and> reduceMatrix [[double_of 1, double_of 2], [double_of 3]] 1
       = Inr [[Num 1, Num 2], [Num 3, NaN]]
   \<and> reduceMatrix [] 1 = Inl TypeError
   \<and> error_kind_of TypeError \<noteq> DimensionError"
  by (simp add: square_def reduceMatrix_def rows_i.simps row_j.simps sum_k.simps sum_l.simps
      add_cell_def round_small)

section \<open>Properties of the generators\<close>

subsection \<open>Counting loops\<close>

lemma loop_count_step: "real i < n \<Longrightarrow> nat \<lceil>n\<rceil> - i = Suc (nat \<lceil>n\<rceil> - Suc i)"
  by linarith

lemma loop_count_done: "\<not> real i < n \<Longrightarrow> nat \<lceil>n\<rceil> - i = 0"
  by linarith

lemma for_loop_appends:
  assumes "\<And>i st. \<exists>e. fst (body i st) = fst st @ [e] \<and> P e"
  shows "\<exists>new. fst (for_loop i n body st) = fst st @ new
            \<and> length new = nat \<lceil>n\<rceil> - i \<and> (\<forall>e \<in> set new. P e)"
proof (induction "nat \<lceil>n\<rceil> - i" arbitrary: i st)
  case 0
  then have "\<not> real i < n" by linarith
  then show ?case using 0 by (subst for_loop.simps) simp
next
  case (Suc k)
  then have lt: "real i < n" by linarith
  obtain e where e: "fst (body i st) = fst st @ [e]" "P e" using assms by blast
  have "k = nat \<lceil>n\<rceil> - Suc i" using Suc(2) by simp
  from Suc(1)[OF this]
  obtain new where new: "fst (for_loop (Suc i) n body (body i st)) = fst (body i st) @ new"
      "length new = nat \<lceil>n\<rceil> - Suc i" "\<forall>e \<in> set new. P e"
    by blast
  have "fst (for_loop i n body st) = fst st @ (e # new)"
    using lt e new by (subst for_loop.simps) simp
  moreover have "length (e # new) = nat \<lceil>n\<rceil> - i"
    using new(2) loop_count_step[OF lt] by simp
  moreover have "\<forall>x \<in> set (e # new). P x" using e(2) new(3) by simp
  ultimately show ?case by blast
qed



subsection \<open>The rejection loop returns on a fair stream\<close>




subsection \<open>One loop: as many examples as samples\<close>












subsection \<open>Two loops: one group of examples each\<close>

















lemma mnist_index_in_range:
  "0 \<le> \<lfloor>fst (randUniform 0 28 g)\<rfloor> \<and> \<lfloor>fst (randUniform 0 28 g)\<rfloor> < 28"
proof -
  have "0 \<le> frac (g 0)" "frac (g 0) < 1" by (rule frac_ge_0, rule frac_lt_1)
  then have "0 \<le> frac (g 0) * 28" "frac (g 0) * 28 < 28" by auto
  then show ?thesis by (simp add: randUniform_def Math_random_def floor_less_iff)
qed


subsection \<open>Length of a generated dataset\<close>





subsection \<open>Labels of the XOR data without noise\<close>

lemma padded_sign:
  fixes x0 y0 :: real
  defines "x \<equiv> x0 + (if x0 > 0 then 0.3 else - 0.3)"
    and "y \<equiv> y0 + (if y0 > 0 then 0.3 else - 0.3)"
  shows "x * y \<noteq> 0" and "x * y \<ge> 0 \<longleftrightarrow> x * y > 0"
proof -
  have "x \<noteq> 0" "y \<noteq> 0" unfolding x_def y_def by (auto split: if_splits)
  then show "x * y \<noteq> 0" by simp
  then show "x * y \<ge> 0 \<longleftrightarrow> x * y > 0" by (simp add: less_le)
qed

text \<open>
  Claim C9. With \<open>noise = 0\<close> every example of \<open>classifyXORData\<close> has the label
  \<open>+1\<close> when \<open>x \<cdot> y > 0\<close> and \<open>-1\<close> when \<open>x \<cdot> y < 0\<close>, and \<open>x \<cdot> y = 0\<close> does not
  occur: the padding moves both coordinates away from the axes.
\<close>

theorem classifyXORData_noiseless_labels:
  "\<forall>e \<in> set (fst (classifyXORData n 0 g)).
     \<exists>x y. px e = Num x \<and> py e = Num y \<and> x * y \<noteq> 0
        \<and> (x * y > 0 \<longrightarrow> label e = Num 1) \<and> (x * y < 0 \<longrightarrow> label e = Num (- 1))"
proof -
  let ?P = "\<lambda>e. \<exists>x y. px e = Num x \<and> py e = Num y \<and> x * y \<noteq> 0
        \<and> (x * y > 0 \<longrightarrow> label e = Num 1) \<and> (x * y < 0 \<longrightarrow> label e = Num (- 1))"
  have "\<exists>new. fst (classifyXORData n 0 g) = fst ([], g) @ new
            \<and> length new = nat \<lceil>real n\<rceil> - 0 \<and> (\<forall>e \<in> set new. ?P e)"
    unfolding classifyXORData_def
  proof (rule for_loop_appends)
    fix i :: nat and st :: points_state
    obtain points g0 where st: "st = (points, g0)" by (cases st) auto
    define x0 where "x0 = fst (randUniform (- 5) 5 g0)"
    define g1 where "g1 = snd (randUniform (- 5) 5 g0)"
    define y0 where "y0 = fst (randUniform (- 5) 5 g1)"
    define x where "x = x0 + (if x0 > 0 then 0.3 else - 0.3)"
    define y where "y = y0 + (if y0 > 0 then 0.3 else - 0.3)"
    have nz: "x * y \<noteq> 0" and ge: "x * y \<ge> 0 \<longleftrightarrow> x * y > 0"
      unfolding x_def y_def by (rule padded_sign)+
    have "?P \<lparr>px = Num x, py = Num y, label = Num (getXORLabel (x, y))\<rparr>"
      using nz ge by (auto simp: getXORLabel_def)
    then show "\<exists>e. fst ((case st of (points, g0) \<Rightarrow>
            let (x0, g1) = randUniform (- 5) 5 g0;
                padding = 0.3;
                x = x0 + (if x0 > 0 then padding else - padding);
                (y0, g2) = randUniform (- 5) 5 g1;
                y = y0 + (if y0 > 0 then padding else - padding);
                (u, g3) = randUniform (- 5) 5 g2; noiseX = u * 0;
                (v, g4) = randUniform (- 5) 5 g3; noiseY = v * 0;
                lbl = getXORLabel (x + noiseX, y + noiseY)
            in (points @ [\<lparr>px = Num x, py = Num y, label = Num lbl\<rparr>], g4))) = fst st @ [e] \<and> ?P e"
      unfolding st x_def y_def x0_def y0_def g1_def
      by (simp add: Let_def split_beta)
  qed
  then show ?thesis by auto
qed

theorem classifyXORData_noiseless_labels_witness:
  "\<lparr>px = Num (- 2.8), py = Num 2.8, label = Num (- 1)\<rparr>
     \<in> set (fst (classifyXORData 1 0 (\<lambda>n. if n = 1 then 3 / 4 else 1 / 4)))
   \<and> (- 2.8) * 2.8 < (0 :: real)"
proof -
  let ?g = "\<lambda>n::nat. if n = 1 then 3 / 4 else 1 / 4 :: real"
  have ev: "fst (classifyXORData 1 0 ?g) = [\<lparr>px = Num (- 2.8), py = Num 2.8, label = Num (getXORLabel (- 2.8, 2.8))\<rparr>]"
    by (simp add: classifyXORData_def for_loop.simps randUniform_def Math_random_def Let_def)
  then have mem: "\<lparr>px = Num (- 2.8), py = Num 2.8, label = Num (getXORLabel (- 2.8, 2.8))\<rparr>
     \<in> set (fst (classifyXORData 1 0 ?g))" by simp
  from bspec[OF classifyXORData_noiseless_labels mem]
  have "label \<lparr>px = Num (- 2.8), py = Num 2.8, label = Num (getXORLabel (- 2.8, 2.8))\<rparr> = Num (- 1)"
    by auto
  then show ?thesis using mem by simp
qed

subsection \<open>The rejection loop at the origin\<close>

text \<open>
  Claim C2 says that a draw with \<open>s = 0\<close> is rejected and drawn again. The loop tests
  \<open>s > 1\<close> only: when \<open>Math.random()\<close> returns \<open>0.5\<close> twice, \<open>v1 = v2 = 0\<close> and
  \<open>s = 0\<close> are accepted, \<open>Math.sqrt(-2 * Math.log(0) / 0) * 0\<close> is \<open>Infinity * 0\<close>, and
  the sample is \<open>NaN\<close>; \<open>classifyTwoGaussData\<close> then returns points with the coordinates
  \<open>NaN\<close>.
\<close>

theorem normalRandom_accepts_zero:
  "normalRandom_loop (constant_rng (1 / 2)) = Some ((0, 0, 0), constant_rng (1 / 2))
   \<and> normalRandom 2 (Num (1 / 2)) (constant_rng (1 / 2)) = Some (NaN, constant_rng (1 / 2))
   \<and> classifyTwoGaussData 2 0 (constant_rng (1 / 2))
       = Some ([\<lparr>px = NaN, py = NaN, label = Num 1\<rparr>, \<lparr>px = NaN, py = NaN, label = Num (- 1)\<rparr>],
               constant_rng (1 / 2))"
proof -
  have l: "normalRandom_loop (constant_rng (1 / 2)) = Some ((0, 0, 0), constant_rng (1 / 2))"
    by (subst normalRandom_loop.simps) (simp add: Math_random_def constant_rng_def)
  have n: "normalRandom m v (constant_rng (1 / 2)) = Some (NaN, constant_rng (1 / 2))" for m v
    using l by (cases v) (simp_all add: normalRandom_def)
  have "classifyTwoGaussData 2 0 (constant_rng (1 / 2))
       = Some ([\<lparr>px = NaN, py = NaN, label = Num 1\<rparr>, \<lparr>px = NaN, py = NaN, label = Num (- 1)\<rparr>],
               constant_rng (1 / 2))"
    by (simp add: classifyTwoGaussData_def genGauss_def for_loop_opt.simps n)
  then show ?thesis using l n by simp
qed

section \<open>Properties of the HeatMap class\<close>

subsection \<open>The colour scale\<close>

text \<open>
  Claim C3 says that the colour scale returns the first stop of the palette at \<open>0\<close> and
  the last stop at \<open>1\<close>. The scale has the domain \<open>[0, 1]\<close> of two numbers and a range
  of ten, so it interpolates between the first two stops: at \<open>0\<close> it returns the first
  stop \<open>0x440154\<close>, and at \<open>1\<close> the second stop \<open>0x482878\<close> (4728952), not the last
  stop \<open>0xfde725\<close> (16639781).
\<close>

theorem colorScale_at_maximum:
  "scale_apply (colorScale (HeatMap_fields width n xDomain yDomain us)) 0 = Num 4456788
   \<and> scale_apply (colorScale (HeatMap_fields width n xDomain yDomain us)) 1 = Num 4728952
   \<and> hd viridisColors = 4456788 \<and> last viridisColors = 16639781"
  by (simp add: HeatMap_fields_def scale_apply_def d3_bilinear_def viridisColors_def)

subsection \<open>Updates before the surface exists\<close>

text \<open>
  Claim C4, as the code has it. On an instance whose canvas and svg have not been created
  yet, \<open>updatePoints\<close>, \<open>updateTestPoints\<close> and \<open>updateBackground\<close> throw at once and
  leave the instance as it was; nothing is buffered or deferred. The error is not a
  lifecycle error of its own: it is the configuration error when \<open>noSvg\<close> is set, the
  dimension error when the matrix has not the side \<open>numSamples\<close>, and otherwise the
  \<open>TypeError\<close> of reading a property of the undefined surface (or of the missing first
  row of an empty matrix).
\<close>

theorem updates_before_materialization:
  assumes "canvas this = None" and "svg this = None"
  shows "updatePoints this points
           = (Inl (if settings this ''noSvg'' = Some True
                   then Error ''Can't add points since noSvg=true'' else TypeError), this)
       \<and> updateTestPoints this points
           = (Inl (if settings this ''noSvg'' = Some True
                   then Error ''Can't add points since noSvg=true'' else TypeError), this)
       \<and> updateBackground this data discretize
           = (Inl (if data \<noteq> [] \<and> (length (hd data) \<noteq> numSamples this \<or> length data \<noteq> numSamples this)
                   then Error ''The provided data matrix must be of size numSamples X numSamples''
                   else TypeError), this)"
  using assms
  by (cases data) (simp_all add: updatePoints_def updateTestPoints_def updateBackground_def Let_def)

theorem updates_before_materialization_witness:
  "canvas (HeatMap_fields 300 2 (0, 1) (0, 1) Map.empty) = None
   \<and> svg (HeatMap_fields 300 2 (0, 1) (0, 1) Map.empty) = None
   \<and> fst (updatePoints (HeatMap_fields 300 2 (0, 1) (0, 1) Map.empty) []) = Inl TypeError
   \<and> fst (updateTestPoints (HeatMap_fields 300 2 (0, 1) (0, 1) Map.empty) []) = Inl TypeError
   \<and> fst (updateBackground (HeatMap_fields 300 2 (0, 1) (0, 1) Map.empty) [[0, 0], [0, 0]] False) = Inl TypeError
   \<and> fst (updateBackground (HeatMap_fields 300 2 (0, 1) (0, 1) Map.empty) [[0]] False)
        = Inl (Error ''The provided data matrix must be of size numSamples X numSamples'')"
proof -
  have c: "canvas (HeatMap_fields 300 2 (0, 1) (0, 1) Map.empty) = None"
    and s: "svg (HeatMap_fields 300 2 (0, 1) (0, 1) Map.empty) = None"
    by (simp_all add: HeatMap_fields_def)
  have n: "numSamples (HeatMap_fields 300 2 (0, 1) (0, 1) Map.empty) = 2"
    and d: "settings (HeatMap_fields 300 2 (0, 1) (0, 1) Map.empty) ''noSvg'' = Some False"
    by (simp_all add: HeatMap_fields_def default_settings_def)
  show ?thesis
    using c s n d updates_before_materialization[OF c s, of "[]" "[[0, 0], [0, 0]]" False]
      updates_before_materialization[OF c s, of "[]" "[[0]]" False]
    by simp
qed

text \<open>
  The claim as it was stated fails: before the surface exists, the call on an instance with
  \<open>noSvg\<close> set throws the configuration error, and the call on an instance with the
  default settings throws a \<open>TypeError\<close>; neither is a lifecycle error.
\<close>

theorem updates_before_materialization_counterexample:
  "canvas (HeatMap_fields 300 2 (0, 1) (0, 1) [''noSvg'' \<mapsto> True]) = None
   \<and> svg (HeatMap_fields 300 2 (0, 1) (0, 1) [''noSvg'' \<mapsto> True]) = None
   \<and> fst (updatePoints (HeatMap_fields 300 2 (0, 1) (0, 1) [''noSvg'' \<mapsto> True]) [])
        = Inl (Error ''Can't add points since noSvg=true'')
   \<and> error_kind_of (Error ''Can't add points since noSvg=true'') \<noteq> LifecycleError
   \<and> fst (updatePoints (HeatMap_fields 300 2 (0, 1) (0, 1) Map.empty) []) = Inl TypeError
   \<and> error_kind_of TypeError \<noteq> LifecycleError"
  by (simp add: HeatMap_fields_def default_settings_def updatePoints_def)

subsection \<open>Points without an overlay\<close>

text \<open>
  Claim C8. When the settings have \<open>noSvg\<close> set, \<open>updatePoints\<close> and \<open>updateTestPoints\<close>
  throw the configuration error for every list of points, and the instance, its overlay
  included, is unchanged.
\<close>

theorem updatePoints_noSvg:
  assumes "settings this ''noSvg'' = Some True"
  shows "updatePoints this points = (Inl (Error ''Can't add points since noSvg=true''), this)
       \<and> updateTestPoints this points = (Inl (Error ''Can't add points since noSvg=true''), this)
       \<and> error_kind_of (Error ''Can't add points since noSvg=true'') = ConfigurationError"
  using assms by (simp add: updatePoints_def updateTestPoints_def)

theorem updatePoints_noSvg_witness:
  "settings (window_onload 300 (HeatMap_fields 300 10 (0, 1) (0, 1) [''noSvg'' \<mapsto> True])) ''noSvg'' = Some True
   \<and> fst (updatePoints (window_onload 300 (HeatMap_fields 300 10 (0, 1) (0, 1) [''noSvg'' \<mapsto> True])) [])
       = Inl (Error ''Can't add points since noSvg=true'')
   \<and> fst (updateTestPoints (window_onload 300 (HeatMap_fields 300 10 (0, 1) (0, 1) [''noSvg'' \<mapsto> True])) [])
       = Inl (Error ''Can't add points since noSvg=true'')"
proof -
  have h: "settings (window_onload 300 (HeatMap_fields 300 10 (0, 1) (0, 1) [''noSvg'' \<mapsto> True])) ''noSvg'' = Some True"
    by (simp add: window_onload_def HeatMap_fields_def default_settings_def)
  show ?thesis using h updatePoints_noSvg[OF h, of "[]"] by simp
qed

subsection \<open>Construction\<close>

text \<open>
  Claim C10 says that the constructor succeeds when the settings argument is omitted. It
  throws a \<open>TypeError\<close>: line 52 reads \<open>userSettings.showAxes\<close> before the test for
  \<open>null\<close>. With settings it throws as well, at line 92, where \<open>this.svg\<close> is still
  undefined.
\<close>

theorem HeatMap_constructor_throws:
  "HeatMap_constructor width n xDomain yDomain None = Inl TypeError
   \<and> HeatMap_constructor width n xDomain yDomain (Some us) = Inl TypeError"
  by (simp add: HeatMap_constructor_def HeatMap_fields_def)


end
